theory Spec2Isabelle
  imports Main "HOL-Library.Sublist" "HOL-Library.FSet"
begin

section \<open>Python strings\<close>

text \<open>
  A Python \<open>str\<close> is a sequence of code points. The model is \<open>string\<close>, one
  \<open>char\<close> per code point, which covers the code points 0 to 255. On that range
  \<open>str.isspace\<close> (also the class \<open>\s\<close> of \<open>re\<close> and the separators of \<open>str.split()\<close>
  and \<open>str.strip()\<close>) holds of 9 to 13, 28 to 32, 133 and 160; the class \<open>\d\<close> holds of
  the digits 0 to 9; \<open>str.lower\<close> adds 32 to A..Z and to 192..222 except 215.
\<close>

definition py_isspace :: "char \<Rightarrow> bool" where
  "py_isspace c = (let n = (of_char c :: nat) in
     (9 \<le> n \<and> n \<le> 13) \<or> (28 \<le> n \<and> n \<le> 32) \<or> n = 133 \<or> n = 160)"

definition py_isdigit :: "char \<Rightarrow> bool" where
  "py_isdigit c = (let n = (of_char c :: nat) in 48 \<le> n \<and> n \<le> 57)"

definition py_lower_char :: "char \<Rightarrow> char" where
  "py_lower_char c = (let n = (of_char c :: nat) in
     if (65 \<le> n \<and> n \<le> 90) \<or> (192 \<le> n \<and> n \<le> 222 \<and> n \<noteq> 215)
     then char_of (n + 32) else c)"

definition py_lower :: "string \<Rightarrow> string" where
  "py_lower s = map py_lower_char s"

text \<open>\<open>text.split()\<close>: the maximal runs of non-whitespace, in order; \<open>cur\<close> is the
  run being read.\<close>

fun split_ws :: "string \<Rightarrow> string \<Rightarrow> string list" where
  "split_ws cur [] = (if cur = [] then [] else [cur])"
| "split_ws cur (c # cs) =
     (if py_isspace c
      then (if cur = [] then split_ws [] cs else cur # split_ws [] cs)
      else split_ws (cur @ [c]) cs)"

definition py_split :: "string \<Rightarrow> string list" where
  "py_split s = split_ws [] s"

text \<open>\<open>sep.join(ws)\<close>\<close>

fun py_join :: "string \<Rightarrow> string list \<Rightarrow> string" where
  "py_join sep [] = []"
| "py_join sep [w] = w"
| "py_join sep (w # v # ws) = w @ sep @ py_join sep (v # ws)"

text \<open>\<open>text.strip()\<close>\<close>

definition py_strip :: "string \<Rightarrow> string" where
  "py_strip s = rev (dropWhile py_isspace (rev (dropWhile py_isspace s)))"

section \<open>The mention pattern of \<open>extract_prompt_from_message\<close>\<close>

text \<open>
  \<open>re.sub\<close> is called with the pattern \<open><@\<close>, the identifier, \<open>>\<close> (an f-string), the
  replacement \<open>''\<close> and the text: the identifier is compiled as part of a regular
  expression. The model covers the patterns made of ordinary characters and of the
  postfix \<open>?\<close> on an ordinary character (optional, greedy, with backtracking); a pattern
  with any other use of a special character is outside the model (\<open>None\<close>).
\<close>

datatype item = Lit char | Opt char

definition re_special :: "char \<Rightarrow> bool" where
  "re_special c = (c \<in> set ''.^$*+?{}[]|()'' \<or> c = CHR 0x5C)"

fun re_parse :: "string \<Rightarrow> item list option" where
  "re_parse [] = Some []"
| "re_parse [c] = (if re_special c then None else Some [Lit c])"
| "re_parse (c # d # cs) =
     (if re_special c then None
      else if d = CHR ''?'' then map_option (Cons (Opt c)) (re_parse cs)
      else map_option (Cons (Lit c)) (re_parse (d # cs)))"

text \<open>A match anchored at the head of the subject; the result is the text after the
  match. An optional item first tries to take its character, then to skip it.\<close>

fun re_match :: "item list \<Rightarrow> string \<Rightarrow> string option" where
  "re_match [] s = Some s"
| "re_match (Lit c # ps) [] = None"
| "re_match (Lit c # ps) (x # xs) = (if x = c then re_match ps xs else None)"
| "re_match (Opt c # ps) [] = re_match ps []"
| "re_match (Opt c # ps) (x # xs) =
     (if x = c
      then (case re_match ps xs of Some r \<Rightarrow> Some r | None \<Rightarrow> re_match ps (x # xs))
      else re_match ps (x # xs))"

text \<open>\<open>re.sub(p, '', s)\<close>: scan from the left; a match is dropped and the scan goes on
  after it, otherwise one character is copied. (An empty match replaces nothing.)\<close>

function re_sub_empty :: "item list \<Rightarrow> string \<Rightarrow> string" where
  "re_sub_empty ps [] = []"
| "re_sub_empty ps (x # xs) =
     (case re_match ps (x # xs) of
        Some r \<Rightarrow> (if length r < length (x # xs) then re_sub_empty ps r
                   else x # re_sub_empty ps xs)
      | None \<Rightarrow> x # re_sub_empty ps xs)"
  by pat_completeness auto
termination
  by (relation "measure (\<lambda>(ps, s). length s)") auto

text \<open>What ends a request of the receiver other than a response: the exceptions the
  handler can raise (the framework answers them with HTTP 500), and \<open>OutsideModel\<close> for a
  mention pattern the model does not cover.\<close>

datatype py_error = TypeError | AttributeError | OtherError string | OutsideModel

definition extract_prompt_from_message :: "string \<Rightarrow> string \<Rightarrow> py_error + string" where
  "extract_prompt_from_message text bot_user_id =
     (case re_parse (''<@'' @ bot_user_id @ ''>'') of
        None \<Rightarrow> Inl OutsideModel
      | Some ps \<Rightarrow> Inr (py_strip (py_join '' '' (py_split (re_sub_empty ps text)))))"


section \<open>The age pattern of \<open>enhance_prompt\<close>\<close>

text \<open>
  \<open>re.search(r'(\d+)[-\s]?year[-\s]?old', user_prompt.lower())\<close>, translated by hand.
  \<open>opt_sep k s\<close> is \<open>[-\s]?\<close> followed by the rest \<open>k\<close> of the pattern: first with one
  separator taken, then with none.
\<close>

definition is_sep :: "char \<Rightarrow> bool" where
  "is_sep c = (c = CHR ''-'' \<or> py_isspace c)"

definition opt_sep :: "(string \<Rightarrow> bool) \<Rightarrow> string \<Rightarrow> bool" where
  "opt_sep k s = ((case s of [] \<Rightarrow> False | c # cs \<Rightarrow> is_sep c \<and> k cs) \<or> k s)"

definition year_old :: "string \<Rightarrow> bool" where
  "year_old s = opt_sep (\<lambda>r. prefix ''year'' r \<and> opt_sep (prefix ''old'') (drop 4 r)) s"

text \<open>The pattern anchored at the head of the subject; the result is group 1. The
  greedy \<open>\d+\<close> first tries to take one more digit, then to stop.\<close>

fun age_group :: "string \<Rightarrow> string option" where
  "age_group [] = None"
| "age_group (c # cs) =
     (if py_isdigit c
      then (case age_group cs of
              Some g \<Rightarrow> Some (c # g)
            | None \<Rightarrow> if year_old cs then Some [c] else None)
      else None)"

text \<open>\<open>re.search\<close>: the leftmost position with a match.\<close>

fun age_search :: "string \<Rightarrow> string option" where
  "age_search [] = None"
| "age_search (c # cs) =
     (case age_group (c # cs) of Some g \<Rightarrow> Some g | None \<Rightarrow> age_search cs)"

definition age_of :: "string \<Rightarrow> string" where
  "age_of user_prompt =
     (case age_search (py_lower user_prompt) of Some g \<Rightarrow> g | None \<Rightarrow> ''5'')"

definition enhance_prompt :: "string \<Rightarrow> string \<Rightarrow> string" where
  "enhance_prompt trigger_word user_prompt =
     ''A vintage photograph of '' @ trigger_word @ '' as a '' @ age_of user_prompt
       @ ''-year-old child, '' @ user_prompt
       @ '', realistic childhood photo, natural lighting, candid moment, high quality''"

section \<open>\<open>generate_image\<close>\<close>

text \<open>
  What \<open>replicate.run\<close> can return: a string, an object with a \<open>url\<close> attribute, a list,
  or anything else (here \<open>None\<close>, a number, a mapping). An exception is an instance of
  \<open>Exception\<close>, given by its description \<open>str(e)\<close>. Python's \<open>str\<close> on an output is a
  parameter, \<open>str_of\<close>.
\<close>

datatype "output" = OStr string | OUrl string | OList "output list"
  | ONone | OInt int | ODict "(string \<times> output) list"

datatype exn = Exn string

definition normalise :: "(output \<Rightarrow> string) \<Rightarrow> output \<Rightarrow> exn + string" where
  "normalise str_of out =
     (case out of
        OList (first_output # rest) \<Rightarrow>
          (case first_output of
             OUrl u \<Rightarrow> Inr u
           | OStr s \<Rightarrow> Inr s
           | _ \<Rightarrow> Inr (str_of first_output))
      | OUrl u \<Rightarrow> Inr u
      | OStr s \<Rightarrow> Inr s
      | _ \<Rightarrow> Inl (Exn (''Unexpected output format: '' @ str_of out)))"

section \<open>The platform and the calls made to the outside\<close>

text \<open>
  A JSON value, as the body of a request and the fields of an event; numbers with a
  fraction or an exponent are not modelled.
\<close>

datatype json = JNull | JBool bool | JNum int | JStr string
  | JArr "json list" | JObj "(string \<times> json) list"

text \<open>
  The identifier of a user of the platform, which \<open>auth_test\<close> returns as \<open>user_id\<close>: a
  non-empty text of letters and digits.
\<close>

definition is_id_char :: "char \<Rightarrow> bool" where
  "is_id_char c = (let n = (of_char c :: nat) in
     (48 \<le> n \<and> n \<le> 57) \<or> (65 \<le> n \<and> n \<le> 90) \<or> (97 \<le> n \<and> n \<le> 122))"

typedef user_id = "{s :: string. s \<noteq> [] \<and> list_all is_id_char s}"
  by (rule exI [of _ "''U''"]) (simp add: is_id_char_def)

text \<open>
  The outcome of a call of the platform client: it returns; or it raises
  \<open>SlackApiError\<close>, described by \<open>str(e)\<close>, and the expression \<open>e.response['error']\<close>, which
  both handlers of the program print, gives a text or raises an exception in its turn
  (a response without data); or it raises another exception.
\<close>

datatype call_outcome = Done | SlackApiError string "exn + string" | Raises exn

text \<open>\<open>Working\<close>, \<open>Failed d\<close> and \<open>UsageHint\<close> stand for the three fixed texts of the
  program; \<open>Failed d\<close> is the one that ends with \<open>Error: \<close> and the description \<open>d\<close>.\<close>

datatype message = Working | Failed string | UsageHint

text \<open>The configuration read at start-up and the outcomes of the external calls, by
  their arguments. The fixed sampling parameters of the generation request are not
  modelled; \<open>replicate_run\<close> takes the enhanced prompt and the \<open>hf_lora\<close> entry, when there
  is one. \<open>http_get\<close> is \<open>requests.get\<close> followed by \<open>raise_for_status\<close>. \<open>auth_test\<close> is
  \<open>None\<close> when the call or the reading of \<open>user_id\<close> raises.\<close>

record services =
  trigger_word :: string
  lora_weights_url :: "string option"
  replicate_run :: "string \<Rightarrow> string option \<Rightarrow> exn + output"
  str_of :: "output \<Rightarrow> string"
  http_get :: "string \<Rightarrow> exn + string"
  chat_postMessage :: "json \<Rightarrow> json \<Rightarrow> message \<Rightarrow> call_outcome"
  files_upload_v2 :: "json \<Rightarrow> json \<Rightarrow> string \<Rightarrow> string \<Rightarrow> call_outcome"
  auth_test :: "user_id option"

text \<open>
  What the program does to the outside, in order: every function returns, with its
  result, the calls it has made. Channel and thread are JSON values of the event.
\<close>

datatype action =
    AuthTest
  | PostMessage json json message
  | Generate string "string option"
  | Download string
  | Upload json json string string
  | StartThread json json string

definition generate_image :: "services \<Rightarrow> string \<Rightarrow> (exn + string) \<times> action list" where
  "generate_image sv prompt =
     (let enhanced_prompt = enhance_prompt (trigger_word sv) prompt;
          hf_lora = (case lora_weights_url sv of
                       None \<Rightarrow> None
                     | Some w \<Rightarrow> if w = [] then None else Some w)
      in (case replicate_run sv enhanced_prompt hf_lora of
            Inl e \<Rightarrow> Inl e
          | Inr out \<Rightarrow> normalise (str_of sv) out,
          [Generate enhanced_prompt hf_lora]))"

definition download_image :: "services \<Rightarrow> string \<Rightarrow> (exn + string) \<times> action list" where
  "download_image sv url = (http_get sv url, [Download url])"

section \<open>The dispatched unit: \<open>process_image_request\<close>\<close>

text \<open>\<open>send_slack_message\<close> catches \<open>SlackApiError\<close> and prints \<open>e.response['error']\<close>;
  \<open>upload_image_to_slack\<close> does the same and raises the exception again. The first
  component is the exception that leaves the call, if any.\<close>

definition send_slack_message ::
  "services \<Rightarrow> json \<Rightarrow> json \<Rightarrow> message \<Rightarrow> exn option \<times> action list" where
  "send_slack_message sv channel thread_ts text =
     (case chat_postMessage sv channel thread_ts text of
        Done \<Rightarrow> None
      | SlackApiError d (Inr err) \<Rightarrow> None
      | SlackApiError d (Inl e) \<Rightarrow> Some e
      | Raises e \<Rightarrow> Some e,
      [PostMessage channel thread_ts text])"

definition upload_image_to_slack ::
  "services \<Rightarrow> json \<Rightarrow> json \<Rightarrow> string \<Rightarrow> string \<Rightarrow> exn option \<times> action list" where
  "upload_image_to_slack sv channel thread_ts image_bytes prompt =
     (case files_upload_v2 sv channel thread_ts image_bytes prompt of
        Done \<Rightarrow> None
      | SlackApiError d (Inr err) \<Rightarrow> Some (Exn d)
      | SlackApiError d (Inl e) \<Rightarrow> Some e
      | Raises e \<Rightarrow> Some e,
      [Upload channel thread_ts image_bytes prompt])"

text \<open>The body of the \<open>try\<close>: the exception that ends it, if any, and the calls made.\<close>

definition try_body :: "services \<Rightarrow> json \<Rightarrow> json \<Rightarrow> string \<Rightarrow> exn option \<times> action list" where
  "try_body sv channel thread_ts user_prompt =
     (case send_slack_message sv channel thread_ts Working of
        (Some e, a1) \<Rightarrow> (Some e, a1)
      | (None, a1) \<Rightarrow>
         (case generate_image sv user_prompt of
            (Inl e, a2) \<Rightarrow> (Some e, a1 @ a2)
          | (Inr image_url, a2) \<Rightarrow>
             (case download_image sv image_url of
                (Inl e, a3) \<Rightarrow> (Some e, a1 @ a2 @ a3)
              | (Inr image_bytes, a3) \<Rightarrow>
                 (case upload_image_to_slack sv channel thread_ts image_bytes user_prompt of
                    (r, a4) \<Rightarrow> (r, a1 @ a2 @ a3 @ a4)))))"

text \<open>The unit: the \<open>try\<close>, and the handler of \<open>except Exception\<close>. The first component
  is the exception that leaves the unit, if any.\<close>

definition process_image_request ::
  "services \<Rightarrow> json \<Rightarrow> json \<Rightarrow> string \<Rightarrow> exn option \<times> action list" where
  "process_image_request sv channel thread_ts user_prompt =
     (case try_body sv channel thread_ts user_prompt of
        (None, acts) \<Rightarrow> (None, acts)
      | (Some (Exn d), acts) \<Rightarrow>
          (case send_slack_message sv channel thread_ts (Failed d) of
             (r, a) \<Rightarrow> (r, acts @ a)))"

section \<open>The receiver: \<open>slack_events\<close>\<close>

text \<open>
  An object is the list of its members, the last of two equal keys binding. \<open>d.get(k)\<close>
  is \<open>None\<close>, that is \<open>JNull\<close>, for a missing key.
\<close>

definition dict_get :: "(string \<times> json) list \<Rightarrow> string \<Rightarrow> json option" where
  "dict_get kvs k = map_of (rev kvs) k"

definition py_get :: "(string \<times> json) list \<Rightarrow> string \<Rightarrow> json" where
  "py_get kvs k = (case dict_get kvs k of Some v \<Rightarrow> v | None \<Rightarrow> JNull)"

definition py_get_default :: "(string \<times> json) list \<Rightarrow> string \<Rightarrow> json \<Rightarrow> json" where
  "py_get_default kvs k d = (case dict_get kvs k of Some v \<Rightarrow> v | None \<Rightarrow> d)"

fun py_truthy :: "json \<Rightarrow> bool" where
  "py_truthy JNull = False"
| "py_truthy (JBool b) = b"
| "py_truthy (JNum n) = (n \<noteq> 0)"
| "py_truthy (JStr s) = (s \<noteq> [])"
| "py_truthy (JArr xs) = (xs \<noteq> [])"
| "py_truthy (JObj kvs) = (kvs \<noteq> [])"

text \<open>The members of \<open>processed_events\<close>. Equal keys are equal and equally hashed
  Python values: \<open>True\<close> is \<open>1\<close> and \<open>False\<close> is \<open>0\<close>. A list or a dict is unhashable, and
  the membership test raises \<open>TypeError\<close>.\<close>

datatype key = KNone | KInt int | KStr string

fun key_of :: "json \<Rightarrow> key option" where
  "key_of JNull = Some KNone"
| "key_of (JBool b) = Some (KInt (if b then 1 else 0))"
| "key_of (JNum n) = Some (KInt n)"
| "key_of (JStr s) = Some (KStr s)"
| "key_of (JArr xs) = None"
| "key_of (JObj kvs) = None"

text \<open>\<open>processed_events.add(event_id)\<close> and the clean-up that follows it.\<close>

definition mark :: "key \<Rightarrow> key fset \<Rightarrow> key fset" where
  "mark k seen =
     (let seen1 = finsert k seen in if fcard seen1 > 1000 then {||} else seen1)"

definition ok :: json where
  "ok = JObj [(''status'', JStr ''ok'')]"

text \<open>The part of the handler after the clean-up: the response, or the exception that
  ends the request, and the calls made. The thread started runs the unit on its own.\<close>

definition handle_event :: "services \<Rightarrow> json \<Rightarrow> (py_error + json) \<times> action list" where
  "handle_event sv event =
     (case event of
        JObj ev \<Rightarrow>
          if py_get ev ''type'' = JStr ''app_mention'' then
            (let channel = py_get ev ''channel'';
                 thread_ts = (if py_truthy (py_get ev ''thread_ts'')
                              then py_get ev ''thread_ts'' else py_get ev ''ts'');
                 text = py_get_default ev ''text'' (JStr []);
                 bot_user_id = (case auth_test sv of Some u \<Rightarrow> Rep_user_id u | None \<Rightarrow> [])
             in case text of
                  JStr t \<Rightarrow>
                    (case extract_prompt_from_message t bot_user_id of
                       Inl e \<Rightarrow> (Inl e, [AuthTest])
                     | Inr user_prompt \<Rightarrow>
                         if user_prompt = [] then
                           (case send_slack_message sv channel thread_ts UsageHint of
                              (Some (Exn d), a) \<Rightarrow> (Inl (OtherError d), AuthTest # a)
                            | (None, a) \<Rightarrow> (Inr ok, AuthTest # a))
                         else (Inr ok, [AuthTest, StartThread channel thread_ts user_prompt]))
                | _ \<Rightarrow> (Inl TypeError, [AuthTest]))
          else (Inr ok, [])
      | _ \<Rightarrow> (Inl AttributeError, []))"

text \<open>The handler: the response or the exception, the set of processed events after
  the request, and the calls made.\<close>

definition slack_events ::
  "services \<Rightarrow> key fset \<Rightarrow> json \<Rightarrow> (py_error + json) \<times> key fset \<times> action list" where
  "slack_events sv processed_events body =
     (case body of
        JObj data \<Rightarrow>
          if py_get data ''type'' = JStr ''url_verification'' then
            (Inr (JObj [(''challenge'', py_get data ''challenge'')]), processed_events, [])
          else if py_get data ''type'' = JStr ''event_callback'' then
            (let event = py_get_default data ''event'' (JObj []);
                 event_id = py_get data ''event_id''
             in case key_of event_id of
                  None \<Rightarrow> (Inl TypeError, processed_events, [])
                | Some k \<Rightarrow>
                    if k |\<in>| processed_events then (Inr ok, processed_events, [])
                    else (case handle_event sv event of
                            (r, acts) \<Rightarrow> (r, mark k processed_events, acts)))
          else (Inr ok, processed_events, [])
      | _ \<Rightarrow> (Inl AttributeError, processed_events, []))"

section \<open>Example data\<close>

text \<open>A deployment in which every external call succeeds, Python's \<open>str\<close> on \<open>None\<close>,
  and the webhook bodies of the end-to-end scenario.\<close>

definition str_none :: "output \<Rightarrow> string" where
  "str_none out = ''None''"

definition bot_id :: user_id where
  "bot_id = Abs_user_id ''BOT''"

definition demo_services :: services where
  "demo_services = \<lparr>trigger_word = ''VISHYFACE'', lora_weights_url = None,
     replicate_run = (\<lambda>p l. Inr (OList [OUrl ''https://r.example/out.webp''])),
     str_of = str_none, http_get = (\<lambda>u. Inr ''RIFF''),
     chat_postMessage = (\<lambda>c t m. Done), files_upload_v2 = (\<lambda>c t b p. Done),
     auth_test = Some bot_id\<rparr>"

definition mention_event :: json where
  "mention_event = JObj [(''type'', JStr ''app_mention''),
     (''text'', JStr ''<@BOT> 3 year old at the beach''),
     (''channel'', JStr ''C1''), (''ts'', JStr ''T1'')]"

definition replay_body :: "(string \<times> json) list" where
  "replay_body = [(''type'', JStr ''event_callback''), (''event_id'', JStr ''E1''),
     (''event'', mention_event)]"

definition no_id_body :: "(string \<times> json) list" where
  "no_id_body = [(''type'', JStr ''event_callback''), (''event'', mention_event)]"

definition bare_mention_body :: "(string \<times> json) list" where
  "bare_mention_body = [(''type'', JStr ''event_callback''), (''event_id'', JStr ''E2''),
     (''event'', JObj [(''type'', JStr ''app_mention''), (''text'', JStr ''<@BOT>''),
        (''channel'', JStr ''C1''), (''thread_ts'', JStr ''T0''), (''ts'', JStr ''T1'')])]"

definition challenge_body :: "(string \<times> json) list" where
  "challenge_body = [(''type'', JStr ''url_verification''), (''challenge'', JStr ''tok3n'')]"

definition other_body :: "(string \<times> json) list" where
  "other_body = [(''type'', JStr ''app_rate_limited'')]"

definition join_body :: "(string \<times> json) list" where
  "join_body = [(''type'', JStr ''event_callback''), (''event_id'', JStr ''E3''),
     (''event'', JObj [(''type'', JStr ''member_joined_channel'')])]"

text \<open>Bodies that are well-formed JSON and not what the platform sends: an \<open>event_id\<close>
  that is an array, an event that is a string, a text that is a number.\<close>

definition array_id_body :: "(string \<times> json) list" where
  "array_id_body = [(''type'', JStr ''event_callback''), (''event_id'', JArr []),
     (''event'', mention_event)]"

definition string_event_body :: "(string \<times> json) list" where
  "string_event_body = [(''type'', JStr ''event_callback''), (''event_id'', JStr ''E4''),
     (''event'', JStr ''app_mention'')]"

definition number_text_body :: "(string \<times> json) list" where
  "number_text_body = [(''type'', JStr ''event_callback''), (''event_id'', JStr ''E5''),
     (''event'', JObj [(''type'', JStr ''app_mention''), (''text'', JNum 7),
        (''channel'', JStr ''C1''), (''ts'', JStr ''T1'')])]"

text \<open>Deployments in which a call fails: the download; every posting, with an exception
  that is not \<open>SlackApiError\<close>; the download and, but for the acknowledgment, every
  posting; every posting, with a \<open>SlackApiError\<close> whose response cannot be read.\<close>

definition download_fails :: services where
  "download_fails = demo_services\<lparr>http_get := (\<lambda>u. Inl (Exn ''404 Client Error''))\<rparr>"

definition posting_fails :: services where
  "posting_fails = demo_services\<lparr>chat_postMessage := (\<lambda>c t m. Raises (Exn ''timed out''))\<rparr>"

definition report_fails :: services where
  "report_fails = demo_services\<lparr>http_get := (\<lambda>u. Inl (Exn ''404 Client Error'')),
     chat_postMessage :=
       (\<lambda>c t m. case m of Working \<Rightarrow> Done | _ \<Rightarrow> Raises (Exn ''timed out''))\<rparr>"

definition no_response_data :: services where
  "no_response_data = demo_services\<lparr>chat_postMessage :=
     (\<lambda>c t m. SlackApiError ''The request to the Slack API failed.''
        (Inl (Exn ''As the response.data is empty, this operation is unsupported'')))\<rparr>"

definition ids1001 :: "key list" where
  "ids1001 = map (KInt \<circ> int) [0..<1001]"

section \<open>Notions used in the statements\<close>

text \<open>The failure of a stage of the unit, by the outcomes of the external calls: the
  acknowledgment, the generation, the download or the upload ends with the exception
  \<open>e\<close>, the stages before it having succeeded. A \<open>SlackApiError\<close> of the acknowledgment is
  printed and is no failure, unless the printing raises; a \<open>SlackApiError\<close> of the upload
  is one.\<close>

definition stage_fails :: "services \<Rightarrow> json \<Rightarrow> json \<Rightarrow> string \<Rightarrow> exn \<Rightarrow> bool" where
  "stage_fails sv channel thread_ts user_prompt e =
     (case chat_postMessage sv channel thread_ts Working of
        Raises x \<Rightarrow> x = e
      | SlackApiError d (Inl x) \<Rightarrow> x = e
      | _ \<Rightarrow>
        (case replicate_run sv (enhance_prompt (trigger_word sv) user_prompt)
                (case lora_weights_url sv of
                   None \<Rightarrow> None
                 | Some w \<Rightarrow> if w = [] then None else Some w) of
           Inl x \<Rightarrow> x = e
         | Inr out \<Rightarrow>
           (case normalise (str_of sv) out of
              Inl x \<Rightarrow> x = e
            | Inr image_url \<Rightarrow>
              (case http_get sv image_url of
                 Inl x \<Rightarrow> x = e
               | Inr image_bytes \<Rightarrow>
                 (case files_upload_v2 sv channel thread_ts image_bytes user_prompt of
                    Done \<Rightarrow> False
                  | SlackApiError d (Inr err) \<Rightarrow> Exn d = e
                  | SlackApiError d (Inl x) \<Rightarrow> x = e
                  | Raises x \<Rightarrow> x = e)))))"

fun is_failed_post :: "action \<Rightarrow> bool" where
  "is_failed_post (PostMessage c t (Failed d)) = True"
| "is_failed_post _ = False"

fun is_start :: "action \<Rightarrow> bool" where
  "is_start (StartThread c t p) = True"
| "is_start _ = False"

fun is_object :: "json \<Rightarrow> bool" where
  "is_object (JObj kvs) = True"
| "is_object _ = False"

fun is_string :: "json \<Rightarrow> bool" where
  "is_string (JStr s) = True"
| "is_string _ = False"

text \<open>The shapes the normalisation tells apart: an object with a \<open>url\<close> attribute,
  a string.\<close>

fun has_url :: "output \<Rightarrow> bool" where
  "has_url (OUrl u) = True"
| "has_url _ = False"

fun is_str :: "output \<Rightarrow> bool" where
  "is_str (OStr s) = True"
| "is_str _ = False"

text \<open>The text with every occurrence of the token removed, reading from the left: an
  occurrence at the head is dropped whole, otherwise one character is kept.\<close>

function remove_token :: "string \<Rightarrow> string \<Rightarrow> string" where
  "remove_token tok [] = []"
| "remove_token tok (x # xs) =
     (if tok \<noteq> [] \<and> prefix tok (x # xs)
      then remove_token tok (drop (length tok) (x # xs))
      else x # remove_token tok xs)"
  by pat_completeness auto
termination
  by (relation "measure (\<lambda>(tok, s). length s)") (auto simp: Suc_le_eq)

fun no_double_ws :: "string \<Rightarrow> bool" where
  "no_double_ws (c # d # cs) = (\<not> (py_isspace c \<and> py_isspace d) \<and> no_double_ws (d # cs))"
| "no_double_ws _ = True"

definition is_word :: "string \<Rightarrow> bool" where
  "is_word w = (w \<noteq> [] \<and> (\<forall>c \<in> set w. \<not> py_isspace c))"


section \<open>Properties of the prompt extraction\<close>

subsection \<open>The literal pattern\<close>

lemma re_match_length: "re_match ps s = Some r \<Longrightarrow> length r \<le> length s"
proof (induction ps s arbitrary: r rule: re_match.induct)
  case (5 c ps x xs)
  then show ?case
    by (fastforce split: if_splits option.splits)
qed (auto split: if_splits)

lemma re_parse_literal:
  "\<forall>c \<in> set s. \<not> re_special c \<Longrightarrow> re_parse s = Some (map Lit s)"
proof (induction s rule: re_parse.induct)
  case (3 c d cs)
  then have "d \<noteq> CHR ''?''" by (auto simp: re_special_def)
  with 3 show ?case by simp
qed simp_all

lemma mention_pattern_literal:
  assumes "\<forall>c \<in> set uid. \<not> re_special c"
  shows "re_parse (''<@'' @ uid @ ''>'') = Some (map Lit (''<@'' @ uid @ ''>''))"
  by (rule re_parse_literal) (use assms in \<open>auto simp: re_special_def\<close>)

lemma re_match_literal:
  "re_match (map Lit tok) s = (if prefix tok s then Some (drop (length tok) s) else None)"
proof (induction tok arbitrary: s)
  case Nil
  then show ?case by simp
next
  case (Cons c tok)
  then show ?case by (cases s) auto
qed

lemma re_sub_literal:
  "tok \<noteq> [] \<Longrightarrow> re_sub_empty (map Lit tok) s = remove_token tok s"
proof (induction tok s rule: remove_token.induct)
  case (1 tok)
  then show ?case by simp
next
  case (2 tok x xs)
  show ?case
  proof (cases "prefix tok (x # xs)")
    case True
    with 2 show ?thesis
      by (simp add: re_match_literal del: drop_Suc_Cons)
  next
    case False
    with 2 show ?thesis by (simp add: re_match_literal)
  qed
qed

lemma remove_token_absent: "\<not> sublist tok s \<Longrightarrow> remove_token tok s = s"
proof (induction s)
  case Nil
  then show ?case by simp
next
  case (Cons x xs)
  then show ?case by (auto simp: sublist_Cons_right)
qed

lemma prefix_inside:
  assumes "prefix tok (pre @ tok @ rest)" and "pre \<noteq> []"
  shows "sublist tok (pre @ butlast tok)"
proof (cases tok rule: rev_cases)
  case Nil
  then show ?thesis by simp
next
  case (snoc bs l)
  have "prefix tok ((pre @ bs) @ l # rest)"
    using assms(1) by (simp add: snoc)
  moreover have "prefix (pre @ bs) ((pre @ bs) @ l # rest)"
    by (rule prefixI) simp
  moreover have "length tok \<le> length (pre @ bs)"
    using assms(2) by (cases pre) (simp_all add: snoc)
  ultimately have "prefix tok (pre @ bs)"
    by (rule prefix_length_prefix)
  then show ?thesis by (simp add: snoc)
qed

lemma remove_token_first:
  assumes "tok \<noteq> []"
  shows "\<not> sublist tok (pre @ butlast tok)
     \<Longrightarrow> remove_token tok (pre @ tok @ rest) = pre @ remove_token tok rest"
proof (induction pre)
  case Nil
  obtain c cs where tok: "tok = c # cs" using assms by (cases tok) auto
  have "remove_token tok ((c # cs) @ rest) = remove_token tok (drop (length tok) ((c # cs) @ rest))"
    unfolding append_Cons using assms by (subst remove_token.simps) (simp add: tok)
  then show ?case by (simp add: tok)
next
  case (Cons p ps)
  have "\<not> prefix tok ((p # ps) @ tok @ rest)"
    using prefix_inside [of tok "p # ps" rest] Cons.prems by blast
  moreover have "\<not> sublist tok (ps @ butlast tok)"
    using Cons.prems by (auto simp: sublist_Cons_right)
  ultimately show ?case using Cons.IH by simp
qed

lemma split_ws_words:
  "\<forall>c \<in> set cur. \<not> py_isspace c \<Longrightarrow> \<forall>w \<in> set (split_ws cur s). is_word w"
proof (induction s arbitrary: cur)
  case Nil
  then show ?case by (simp add: is_word_def)
next
  case (Cons x xs)
  show ?case
  proof (cases "py_isspace x")
    case True
    have "\<forall>w \<in> set (split_ws [] xs). is_word w"
      using Cons.IH [of "[]"] by simp
    with True Cons.prems show ?thesis by (simp add: is_word_def)
  next
    case False
    with Cons.prems have "\<forall>c \<in> set (cur @ [x]). \<not> py_isspace c" by simp
    from Cons.IH [OF this] False show ?thesis by simp
  qed
qed

lemma py_split_words: "\<forall>w \<in> set (py_split s). is_word w"
  using split_ws_words [of "[]" s] by (simp add: py_split_def)

lemma split_ws_word: "\<forall>c \<in> set w. \<not> py_isspace c \<Longrightarrow> split_ws cur (w @ s) = split_ws (cur @ w) s"
  by (induction w arbitrary: cur) simp_all

lemma split_join:
  "\<forall>w \<in> set ws. is_word w \<Longrightarrow> py_split (py_join '' '' ws) = ws"
proof (induction ws rule: induct_list012)
  case 1
  then show ?case by (simp add: py_split_def)
next
  case (2 w)
  then have "split_ws [] (w @ []) = split_ws ([] @ w) []"
    by (intro split_ws_word) (simp add: is_word_def)
  with 2 show ?case by (simp add: py_split_def is_word_def)
next
  case (3 w v ws)
  from 3(3) have w: "w \<noteq> []" "\<forall>c \<in> set w. \<not> py_isspace c"
    by (simp_all add: is_word_def)
  from 3(2,3) have ih: "split_ws [] (py_join '' '' (v # ws)) = v # ws"
    by (simp add: py_split_def)
  have sp: "py_isspace CHR '' ''"
    by (simp add: py_isspace_def)
  have "split_ws [] (w @ '' '' @ py_join '' '' (v # ws))
      = split_ws ([] @ w) ('' '' @ py_join '' '' (v # ws))"
    using w(2) by (rule split_ws_word)
  also have "\<dots> = w # split_ws [] (py_join '' '' (v # ws))"
    using w(1) sp by simp
  finally show ?case
    using ih by (simp add: py_split_def)
qed

lemma join_hd: "w \<noteq> [] \<Longrightarrow> hd (py_join sep (w # ws)) = hd w"
  by (cases ws) simp_all

lemma join_nonempty_last: "ws \<noteq> [] \<Longrightarrow> last ws \<noteq> [] \<Longrightarrow> py_join sep ws \<noteq> []"
  by (induction sep ws rule: py_join.induct) simp_all

lemma join_last:
  "ws \<noteq> [] \<Longrightarrow> last ws \<noteq> [] \<Longrightarrow> last (py_join sep ws) = last (last ws)"
proof (induction sep ws rule: py_join.induct)
  case (3 sep w v ws)
  then have "py_join sep (v # ws) \<noteq> []"
    by (intro join_nonempty_last) simp_all
  with 3 show ?case by simp
qed simp_all

lemma join_nonempty: "ws \<noteq> [] \<Longrightarrow> hd ws \<noteq> [] \<Longrightarrow> py_join sep ws \<noteq> []"
  by (induction sep ws rule: py_join.induct) simp_all

lemma join_ends:
  assumes "\<forall>w \<in> set ws. is_word w" and "py_join sep ws \<noteq> []"
  shows "\<not> py_isspace (hd (py_join sep ws)) \<and> \<not> py_isspace (last (py_join sep ws))"
proof (cases ws)
  case Nil
  with assms(2) show ?thesis by simp
next
  case (Cons w vs)
  have "is_word w" "is_word (last ws)"
    using assms(1) Cons by (simp, metis last_in_set list.distinct(1))
  then show ?thesis
    using Cons join_hd [of w sep vs] join_last [of ws sep]
    by (auto simp: is_word_def intro: hd_in_set last_in_set)
qed

lemma strip_id:
  "s = [] \<or> (\<not> py_isspace (hd s) \<and> \<not> py_isspace (last s)) \<Longrightarrow> py_strip s = s"
proof (cases s)
  case Nil
  then show ?thesis by (simp add: py_strip_def)
next
  case (Cons c cs)
  assume "s = [] \<or> (\<not> py_isspace (hd s) \<and> \<not> py_isspace (last s))"
  with Cons have h: "\<not> py_isspace c" and l: "\<not> py_isspace (last s)" by simp_all
  have "dropWhile py_isspace s = s" using h Cons by simp
  moreover have "dropWhile py_isspace (rev s) = rev s"
    using l Cons by (cases "rev s") (simp_all add: last_rev hd_rev [symmetric])
  ultimately show ?thesis by (simp add: py_strip_def)
qed

lemma join_spaces:
  "\<forall>w \<in> set ws. is_word w \<Longrightarrow> \<forall>c \<in> set (py_join '' '' ws). py_isspace c \<longrightarrow> c = CHR '' ''"
proof (induction ws rule: induct_list012)
  case 1
  then show ?case by simp
next
  case (2 w)
  then show ?case by (simp add: is_word_def)
next
  case (3 w v ws)
  from 3(3) have "\<forall>c \<in> set w. \<not> py_isspace c" by (simp add: is_word_def)
  moreover from 3(2,3)
  have "\<forall>c \<in> set (py_join '' '' (v # ws)). py_isspace c \<longrightarrow> c = CHR '' ''" by simp
  ultimately show ?case by auto
qed

lemma no_double_word:
  "\<forall>c \<in> set w. \<not> py_isspace c \<Longrightarrow> no_double_ws r \<Longrightarrow> no_double_ws (w @ r)"
proof (induction w)
  case Nil
  then show ?case by simp
next
  case (Cons c w)
  then show ?case by (cases "w @ r") simp_all
qed

lemma join_no_double:
  "\<forall>w \<in> set ws. is_word w \<Longrightarrow> no_double_ws (py_join '' '' ws)"
proof (induction ws rule: induct_list012)
  case 1
  then show ?case by simp
next
  case (2 w)
  then have "no_double_ws (w @ [])"
    by (intro no_double_word) (simp_all add: is_word_def)
  then show ?case by simp
next
  case (3 w v ws)
  from 3(3) have v: "is_word v" and w: "\<forall>c \<in> set w. \<not> py_isspace c"
    by (simp_all add: is_word_def)
  from 3(2,3) have n: "no_double_ws (py_join '' '' (v # ws))" by simp
  have "py_join '' '' (v # ws) \<noteq> []"
    using v by (intro join_nonempty) (simp_all add: is_word_def)
  moreover have "\<not> py_isspace (hd (py_join '' '' (v # ws)))"
    using v join_hd [of v "'' ''" ws] hd_in_set [of v] by (simp add: is_word_def)
  ultimately have "no_double_ws ('' '' @ py_join '' '' (v # ws))"
    using n by (cases "py_join '' '' (v # ws)") simp_all
  with w have "no_double_ws (w @ '' '' @ py_join '' '' (v # ws))"
    by (rule no_double_word)
  then show ?case by simp
qed

lemma extract_literal:
  assumes "\<forall>c \<in> set uid. \<not> re_special c"
  shows "extract_prompt_from_message text uid
      = Inr (py_join '' '' (py_split (remove_token (''<@'' @ uid @ ''>'') text)))"
proof -
  let ?tok = "''<@'' @ uid @ ''>''"
  let ?r = "py_join '' '' (py_split (remove_token ?tok text))"
  have "re_sub_empty (map Lit ?tok) text = remove_token ?tok text"
    by (rule re_sub_literal) simp
  moreover have "py_strip ?r = ?r"
    using join_ends [OF py_split_words, of "'' ''" "remove_token ?tok text"]
    by (intro strip_id) blast
  ultimately show ?thesis
    using mention_pattern_literal [OF assms]
    by (simp add: extract_prompt_from_message_def)
qed

lemma id_char_not_special:
  assumes "is_id_char c"
  shows "\<not> re_special c"
proof
  assume "re_special c"
  then have "c \<in> set ''.^$*+?{}[]|()'' \<or> c = CHR 0x5C"
    by (simp only: re_special_def)
  then have "\<not> is_id_char c"
    by (auto simp: is_id_char_def)
  with assms show False by simp
qed

lemma bot_user_id_literal:
  "\<forall>c \<in> set (case a of Some u \<Rightarrow> Rep_user_id u | None \<Rightarrow> []). \<not> re_special c"
proof (cases a)
  case None
  then show ?thesis by simp
next
  case (Some u)
  have "list_all is_id_char (Rep_user_id u)"
    using Rep_user_id [of u] by simp
  with Some show ?thesis
    by (auto simp: list_all_iff id_char_not_special)
qed

text \<open>
  C5. For every text and every identifier without a special character of regular
  expressions (as are the identifiers the handler passes: a user identifier of the
  platform or the empty text, lemma \<open>bot_user_id_literal\<close>), the extraction succeeds; its
  result has the words of the text without the mention tokens, neither begins nor ends
  with whitespace, has no two whitespace characters in a row and no whitespace but the
  space. The tokens are removed from the left: a text without the token is unchanged,
  and up to and including the first occurrence of the token the text is kept but for
  that occurrence. (The instance of the specification is the witness.)
\<close>

theorem extract_prompt_literal:
  assumes "\<forall>c \<in> set uid. \<not> re_special c"
  shows "\<exists>r. extract_prompt_from_message text uid = Inr r
       \<and> py_split r = py_split (remove_token (''<@'' @ uid @ ''>'') text)
       \<and> (r \<noteq> [] \<longrightarrow> \<not> py_isspace (hd r) \<and> \<not> py_isspace (last r))
       \<and> no_double_ws r
       \<and> (\<forall>c \<in> set r. py_isspace c \<longrightarrow> c = CHR '' '')
       \<and> (\<not> sublist (''<@'' @ uid @ ''>'') text
            \<longrightarrow> remove_token (''<@'' @ uid @ ''>'') text = text)
       \<and> (\<forall>pre rest. text = pre @ (''<@'' @ uid @ ''>'') @ rest
              \<and> \<not> sublist (''<@'' @ uid @ ''>'') (pre @ ''<@'' @ uid)
            \<longrightarrow> remove_token (''<@'' @ uid @ ''>'') text
                = pre @ remove_token (''<@'' @ uid @ ''>'') rest)"
proof -
  let ?tok = "''<@'' @ uid @ ''>''"
  let ?t = "remove_token ?tok text"
  let ?r = "py_join '' '' (py_split ?t)"
  have w: "\<forall>w \<in> set (py_split ?t). is_word w"
    by (rule py_split_words)
  have b: "butlast ?tok = ''<@'' @ uid"
    by (simp add: butlast_append)
  have "extract_prompt_from_message text uid = Inr ?r"
    using assms by (rule extract_literal)
  moreover have "py_split ?r = py_split ?t"
    using w by (rule split_join)
  moreover have "?r \<noteq> [] \<longrightarrow> \<not> py_isspace (hd ?r) \<and> \<not> py_isspace (last ?r)"
    using join_ends [OF w] by blast
  moreover have "no_double_ws ?r"
    using w by (rule join_no_double)
  moreover have "\<forall>c \<in> set ?r. py_isspace c \<longrightarrow> c = CHR '' ''"
    using w by (rule join_spaces)
  moreover have "\<not> sublist ?tok text \<longrightarrow> ?t = text"
    by (simp add: remove_token_absent)
  moreover have "\<forall>pre rest. text = pre @ ?tok @ rest \<and> \<not> sublist ?tok (pre @ ''<@'' @ uid)
      \<longrightarrow> ?t = pre @ remove_token ?tok rest"
    using remove_token_first [of ?tok] b by (metis append_is_Nil_conv not_Cons_self2)
  ultimately show ?thesis by blast
qed

theorem extract_prompt_literal_witness:
  "list_all (\<lambda>c. \<not> re_special c) ''U123''
   \<and> extract_prompt_from_message ''  <@U123>   draw me as a kid  '' ''U123''
       = Inr ''draw me as a kid''
   \<and> extract_prompt_from_message ''<@U123>'' ''U123'' = Inr []"
proof -
  have a: "\<forall>c \<in> set ''U123''. \<not> re_special c"
    by (simp add: re_special_def)
  have e: "extract_prompt_from_message ''  <@U123>   draw me as a kid  '' ''U123''
       = Inr ''draw me as a kid''"
    "extract_prompt_from_message ''<@U123>'' ''U123'' = Inr []"
    by (simp_all add: extract_prompt_from_message_def re_special_def py_strip_def
        py_split_def py_isspace_def)
  from extract_prompt_literal [OF a, of "''  <@U123>   draw me as a kid  ''"]
  obtain r where "extract_prompt_from_message ''  <@U123>   draw me as a kid  '' ''U123'' = Inr r"
    by blast
  with a e show ?thesis by (simp add: list_all_iff)
qed

section \<open>Properties of the receiver\<close>

lemma mark_keeps: "fcard seen < 1000 \<Longrightarrow> mark k seen = finsert k seen"
  by (auto simp: mark_def Let_def fcard_finsert_if)

lemma Rep_bot_id: "Rep_user_id bot_id = ''BOT''"
  by (simp add: bot_id_def Abs_user_id_inverse is_id_char_def)

lemma extract_returns:
  "\<exists>p. extract_prompt_from_message t (case a of Some u \<Rightarrow> Rep_user_id u | None \<Rightarrow> []) = Inr p"
  using extract_literal [OF bot_user_id_literal] by blast

lemma slack_events_new:
  assumes "py_get data ''type'' = JStr ''event_callback''"
    and "key_of (py_get data ''event_id'') = Some k"
    and "k |\<notin>| seen"
  shows "slack_events sv seen (JObj data)
      = (fst (handle_event sv (py_get_default data ''event'' (JObj []))), mark k seen,
         snd (handle_event sv (py_get_default data ''event'' (JObj []))))"
  using assms by (simp add: slack_events_def split: prod.splits)

lemma handle_event_not_object:
  "\<not> is_object event \<Longrightarrow> handle_event sv event = (Inl AttributeError, [])"
  by (cases event) (simp_all add: handle_event_def)

lemma handle_event_other:
  "py_get ev ''type'' \<noteq> JStr ''app_mention'' \<Longrightarrow> handle_event sv (JObj ev) = (Inr ok, [])"
  by (simp add: handle_event_def)

lemma handle_event_text:
  assumes "py_get ev ''type'' = JStr ''app_mention''"
    and "\<not> is_string (py_get_default ev ''text'' (JStr []))"
  shows "handle_event sv (JObj ev) = (Inl TypeError, [AuthTest])"
  using assms by (cases "py_get_default ev ''text'' (JStr [])") (simp_all add: handle_event_def)

lemma handle_event_mention:
  assumes "py_get ev ''type'' = JStr ''app_mention''"
    and "py_get_default ev ''text'' (JStr []) = JStr t"
    and "extract_prompt_from_message t (case auth_test sv of Some u \<Rightarrow> Rep_user_id u | None \<Rightarrow> [])
           = Inr p"
    and "ch = py_get ev ''channel''"
    and "th = (if py_truthy (py_get ev ''thread_ts'') then py_get ev ''thread_ts''
               else py_get ev ''ts'')"
  shows "handle_event sv (JObj ev)
      = (if p = [] then
           (case chat_postMessage sv ch th UsageHint of
              Done \<Rightarrow> Inr ok
            | SlackApiError d (Inr err) \<Rightarrow> Inr ok
            | SlackApiError d (Inl (Exn x)) \<Rightarrow> Inl (OtherError x)
            | Raises (Exn x) \<Rightarrow> Inl (OtherError x),
            [AuthTest, PostMessage ch th UsageHint])
         else (Inr ok, [AuthTest, StartThread ch th p]))"
proof (cases "p = []")
  case False
  with assms show ?thesis
    by (simp add: handle_event_def Let_def)
next
  case True
  have "handle_event sv (JObj ev)
      = (case send_slack_message sv ch th UsageHint of
           (Some (Exn d), a) \<Rightarrow> (Inl (OtherError d), AuthTest # a)
         | (None, a) \<Rightarrow> (Inr ok, AuthTest # a))"
    using assms True by (simp add: handle_event_def Let_def)
  with True show ?thesis
    by (simp add: send_slack_message_def split: call_outcome.splits sum.splits exn.splits)
qed

text \<open>
  C4. An \<open>event_callback\<close> body whose \<open>event_id\<close> is already in the set of processed
  events is answered with \<open>{"status": "ok"}\<close>, the set is unchanged and no call is made:
  no \<open>auth_test\<close>, no message, no thread. And when the set is below its cap, the set left
  by a first delivery makes a second delivery of the same body such a duplicate,
  whatever the first one did.
\<close>

theorem duplicate_event_ignored:
  assumes "py_get data ''type'' = JStr ''event_callback''"
    and "key_of (py_get data ''event_id'') = Some k"
  shows "(k |\<in>| seen \<longrightarrow> slack_events sv seen (JObj data) = (Inr ok, seen, []))
       \<and> (fcard seen < 1000 \<longrightarrow>
            slack_events sv' (fst (snd (slack_events sv seen (JObj data)))) (JObj data)
              = (Inr ok, fst (snd (slack_events sv seen (JObj data))), []))"
proof -
  have dup: "slack_events s p (JObj data) = (Inr ok, p, [])" if "k |\<in>| p" for s p
    using assms that by (simp add: slack_events_def)
  have "k |\<in>| fst (snd (slack_events sv seen (JObj data)))" if "fcard seen < 1000"
  proof (cases "k |\<in>| seen")
    case True
    then show ?thesis by (simp add: dup)
  next
    case False
    with assms that show ?thesis
      by (simp add: slack_events_new mark_keeps)
  qed
  with dup show ?thesis by blast
qed

theorem duplicate_event_ignored_witness:
  "py_get replay_body ''type'' = JStr ''event_callback''
   \<and> key_of (py_get replay_body ''event_id'') = Some (KStr ''E1'')
   \<and> KStr ''E1'' |\<in>| {|KStr ''E1''|} \<and> fcard ({||} :: key fset) < 1000
   \<and> slack_events demo_services {|KStr ''E1''|} (JObj replay_body) = (Inr ok, {|KStr ''E1''|}, [])
   \<and> slack_events demo_services {||} (JObj replay_body)
       = (Inr ok, {|KStr ''E1''|},
          [AuthTest, StartThread (JStr ''C1'') (JStr ''T1'') ''3 year old at the beach''])
   \<and> slack_events demo_services (fst (snd (slack_events demo_services {||} (JObj replay_body))))
        (JObj replay_body)
       = (Inr ok, fst (snd (slack_events demo_services {||} (JObj replay_body))), [])"
proof -
  have t: "py_get replay_body ''type'' = JStr ''event_callback''"
    by (simp add: replay_body_def py_get_def dict_get_def)
  have k: "key_of (py_get replay_body ''event_id'') = Some (KStr ''E1'')"
    by (simp add: replay_body_def py_get_def dict_get_def)
  have first: "slack_events demo_services {||} (JObj replay_body)
       = (Inr ok, {|KStr ''E1''|},
          [AuthTest, StartThread (JStr ''C1'') (JStr ''T1'') ''3 year old at the beach''])"
    by (simp add: slack_events_def replay_body_def mention_event_def demo_services_def
        py_get_def py_get_default_def dict_get_def handle_event_def mark_def Rep_bot_id
        extract_prompt_from_message_def re_special_def py_strip_def py_split_def
        py_isspace_def fcard_finsert_if fcard_fempty)
  show ?thesis
    using duplicate_event_ignored [OF t k, of "{|KStr ''E1''|}" demo_services demo_services]
      duplicate_event_ignored [OF t k, of "{||}" demo_services demo_services] t k first
    by (simp add: fcard_fempty)
qed

text \<open>
  C9. A body without \<open>event_id\<close> is handled under the key \<open>None\<close>: when \<open>None\<close> is not
  yet in the set it is marked and the event is processed as any other; when it is in the
  set, every \<open>event_callback\<close> body without \<open>event_id\<close> is dropped as a duplicate; and below
  the cap the first such delivery makes every later one a duplicate.
\<close>

theorem missing_event_id_dedup:
  assumes "py_get data ''type'' = JStr ''event_callback''"
    and "dict_get data ''event_id'' = None"
    and "py_get data' ''type'' = JStr ''event_callback''"
    and "dict_get data' ''event_id'' = None"
  shows "(KNone |\<notin>| seen \<longrightarrow>
            slack_events sv seen (JObj data)
              = (fst (handle_event sv (py_get_default data ''event'' (JObj []))),
                 mark KNone seen,
                 snd (handle_event sv (py_get_default data ''event'' (JObj [])))))
       \<and> (KNone |\<in>| seen \<longrightarrow> slack_events sv seen (JObj data') = (Inr ok, seen, []))
       \<and> (fcard seen < 1000 \<longrightarrow>
            slack_events sv' (fst (snd (slack_events sv seen (JObj data)))) (JObj data')
              = (Inr ok, fst (snd (slack_events sv seen (JObj data))), []))"
proof -
  have k: "key_of (py_get data ''event_id'') = Some KNone"
    "key_of (py_get data' ''event_id'') = Some KNone"
    using assms by (simp_all add: py_get_def)
  have first: "slack_events sv seen (JObj data)
              = (fst (handle_event sv (py_get_default data ''event'' (JObj []))),
                 mark KNone seen,
                 snd (handle_event sv (py_get_default data ''event'' (JObj []))))"
    if "KNone |\<notin>| seen"
    using assms(1) k(1) that by (rule slack_events_new)
  have dup: "slack_events s p (JObj data') = (Inr ok, p, [])" if "KNone |\<in>| p" for s p
    using assms(3) k(2) that by (simp add: slack_events_def)
  have "KNone |\<in>| fst (snd (slack_events sv seen (JObj data)))" if "fcard seen < 1000"
  proof (cases "KNone |\<in>| seen")
    case True
    with assms(1) k(1) show ?thesis by (simp add: slack_events_def)
  next
    case False
    with that show ?thesis by (simp add: first mark_keeps)
  qed
  with first dup show ?thesis by blast
qed

theorem missing_event_id_dedup_witness:
  "py_get no_id_body ''type'' = JStr ''event_callback''
   \<and> dict_get no_id_body ''event_id'' = None
   \<and> KNone |\<notin>| ({||} :: key fset) \<and> KNone |\<in>| {|KNone|} \<and> fcard ({||} :: key fset) < 1000
   \<and> slack_events demo_services {||} (JObj no_id_body)
       = (Inr ok, {|KNone|},
          [AuthTest, StartThread (JStr ''C1'') (JStr ''T1'') ''3 year old at the beach''])
   \<and> slack_events demo_services {|KNone|} (JObj no_id_body) = (Inr ok, {|KNone|}, [])
   \<and> slack_events demo_services (fst (snd (slack_events demo_services {||} (JObj no_id_body))))
        (JObj no_id_body)
       = (Inr ok, fst (snd (slack_events demo_services {||} (JObj no_id_body))), [])"
proof -
  have t: "py_get no_id_body ''type'' = JStr ''event_callback''"
    by (simp add: no_id_body_def py_get_def dict_get_def)
  have k: "dict_get no_id_body ''event_id'' = None"
    by (simp add: no_id_body_def dict_get_def)
  have h: "handle_event demo_services (py_get_default no_id_body ''event'' (JObj []))
       = (Inr ok, [AuthTest, StartThread (JStr ''C1'') (JStr ''T1'') ''3 year old at the beach''])"
    by (simp add: no_id_body_def mention_event_def demo_services_def
        py_get_def py_get_default_def dict_get_def handle_event_def Rep_bot_id
        extract_prompt_from_message_def re_special_def py_strip_def py_split_def
        py_isspace_def)
  have m: "mark KNone {||} = {|KNone|}"
    by (simp add: mark_def fcard_finsert_if fcard_fempty)
  show ?thesis
    using missing_event_id_dedup [OF t k t k, of "{||}" demo_services demo_services]
      missing_event_id_dedup [OF t k t k, of "{|KNone|}" demo_services demo_services] t k h m
    by (simp add: fcard_fempty)
qed

text \<open>
  C6, the claim as stated fails: when the posting of the usage hint raises an exception
  that is not \<open>SlackApiError\<close> (here a timeout), nothing is posted and the handler does
  not return: the exception ends the request.
\<close>

theorem usage_hint_post_raises_counterexample:
  "chat_postMessage posting_fails (JStr ''C1'') (JStr ''T0'') UsageHint
     = Raises (Exn ''timed out'')
   \<and> slack_events posting_fails {||} (JObj bare_mention_body)
       = (Inl (OtherError ''timed out''), {|KStr ''E2''|},
          [AuthTest, PostMessage (JStr ''C1'') (JStr ''T0'') UsageHint])"
  by (simp add: slack_events_def bare_mention_body_def posting_fails_def demo_services_def
      py_get_def py_get_default_def dict_get_def handle_event_def mark_def Rep_bot_id
      send_slack_message_def extract_prompt_from_message_def re_special_def py_strip_def
      py_split_def fcard_finsert_if fcard_fempty)

text \<open>
  C6, amended. An \<open>app_mention\<close> event with a new id whose text is empty after the
  mention is removed and the whitespace normalised: the handler calls \<open>auth_test\<close>, then
  \<open>chat_postMessage\<close> once, with the usage hint, the channel of the event and its thread
  (\<open>thread_ts\<close>, or \<open>ts\<close> when that is missing or empty), and starts no thread. It answers
  \<open>{"status": "ok"}\<close> when that call returns or raises a \<open>SlackApiError\<close> that is printed;
  an exception that the call raises otherwise, or that the printing raises, ends the
  request.
\<close>

theorem empty_prompt_usage_hint:
  assumes "py_get data ''type'' = JStr ''event_callback''"
    and "key_of (py_get data ''event_id'') = Some k"
    and "k |\<notin>| seen"
    and "py_get_default data ''event'' (JObj []) = JObj ev"
    and "py_get ev ''type'' = JStr ''app_mention''"
    and "py_get_default ev ''text'' (JStr []) = JStr t"
    and "extract_prompt_from_message t (case auth_test sv of Some u \<Rightarrow> Rep_user_id u | None \<Rightarrow> [])
           = Inr []"
    and "ch = py_get ev ''channel''"
    and "th = (if py_truthy (py_get ev ''thread_ts'') then py_get ev ''thread_ts''
               else py_get ev ''ts'')"
  shows "snd (snd (slack_events sv seen (JObj data))) = [AuthTest, PostMessage ch th UsageHint]
       \<and> (\<forall>c ts p. StartThread c ts p \<notin> set (snd (snd (slack_events sv seen (JObj data)))))
       \<and> fst (slack_events sv seen (JObj data))
           = (case chat_postMessage sv ch th UsageHint of
                Done \<Rightarrow> Inr ok
              | SlackApiError d (Inr err) \<Rightarrow> Inr ok
              | SlackApiError d (Inl (Exn x)) \<Rightarrow> Inl (OtherError x)
              | Raises (Exn x) \<Rightarrow> Inl (OtherError x))"
proof -
  have s: "slack_events sv seen (JObj data)
      = (fst (handle_event sv (JObj ev)), mark k seen, snd (handle_event sv (JObj ev)))"
    using slack_events_new [OF assms(1-3)] assms(4) by simp
  show ?thesis
    unfolding s handle_event_mention [OF assms(5-9)] by simp
qed

theorem empty_prompt_usage_hint_witness:
  "py_get bare_mention_body ''type'' = JStr ''event_callback''
   \<and> key_of (py_get bare_mention_body ''event_id'') = Some (KStr ''E2'')
   \<and> KStr ''E2'' |\<notin>| ({||} :: key fset)
   \<and> extract_prompt_from_message ''<@BOT>''
        (case auth_test demo_services of Some u \<Rightarrow> Rep_user_id u | None \<Rightarrow> []) = Inr []
   \<and> snd (snd (slack_events demo_services {||} (JObj bare_mention_body)))
       = [AuthTest, PostMessage (JStr ''C1'') (JStr ''T0'') UsageHint]
   \<and> fst (slack_events demo_services {||} (JObj bare_mention_body)) = Inr ok
   \<and> fst (slack_events no_response_data {||} (JObj bare_mention_body))
       = Inl (OtherError ''As the response.data is empty, this operation is unsupported'')"
proof -
  let ?ev = "[(''type'', JStr ''app_mention''), (''text'', JStr ''<@BOT>''),
        (''channel'', JStr ''C1''), (''thread_ts'', JStr ''T0''), (''ts'', JStr ''T1'')]"
  have a1: "py_get bare_mention_body ''type'' = JStr ''event_callback''"
    and a2: "key_of (py_get bare_mention_body ''event_id'') = Some (KStr ''E2'')"
    and a4: "py_get_default bare_mention_body ''event'' (JObj []) = JObj ?ev"
    by (simp_all add: bare_mention_body_def py_get_def py_get_default_def dict_get_def)
  have a3: "KStr ''E2'' |\<notin>| ({||} :: key fset)" by simp
  have a5: "py_get ?ev ''type'' = JStr ''app_mention''"
    and a6: "py_get_default ?ev ''text'' (JStr []) = JStr ''<@BOT>''"
    and a8: "JStr ''C1'' = py_get ?ev ''channel''"
    and a9: "JStr ''T0'' = (if py_truthy (py_get ?ev ''thread_ts'') then py_get ?ev ''thread_ts''
               else py_get ?ev ''ts'')"
    by (simp_all add: py_get_def py_get_default_def dict_get_def)
  have a7: "extract_prompt_from_message ''<@BOT>''
        (case auth_test sv of Some u \<Rightarrow> Rep_user_id u | None \<Rightarrow> []) = Inr []"
    if "auth_test sv = Some bot_id" for sv
    using that by (simp add: Rep_bot_id extract_prompt_from_message_def re_special_def
        py_strip_def py_split_def)
  have d: "auth_test demo_services = Some bot_id"
    "chat_postMessage demo_services (JStr ''C1'') (JStr ''T0'') UsageHint = Done"
    by (simp_all add: demo_services_def)
  have n: "auth_test no_response_data = Some bot_id"
    "chat_postMessage no_response_data (JStr ''C1'') (JStr ''T0'') UsageHint
       = SlackApiError ''The request to the Slack API failed.''
           (Inl (Exn ''As the response.data is empty, this operation is unsupported''))"
    by (simp_all add: no_response_data_def demo_services_def)
  show ?thesis
    using empty_prompt_usage_hint [OF a1 a2 a3 a4 a5 a6 a7 [OF d(1)] a8 a9]
      empty_prompt_usage_hint [OF a1 a2 a3 a4 a5 a6 a7 [OF n(1)] a8 a9]
      a1 a2 a7 [OF d(1)] d(2) n(2)
    by simp
qed

text \<open>
  C8, the claim as stated fails: a body that is well-formed JSON and not an object (here
  the empty array) ends the handler with \<open>AttributeError\<close>, not with a response; so do,
  with \<open>TypeError\<close> or \<open>AttributeError\<close>, an \<open>event_callback\<close> whose \<open>event_id\<close> is an array,
  whose event is a string, or whose \<open>app_mention\<close> has a number for text; and an
  \<open>app_mention\<close> without prompt ends with the exception of the posting of the usage hint,
  when that raises one that is not \<open>SlackApiError\<close>.
\<close>

theorem webhook_error_responses_counterexample:
  "slack_events demo_services {||} (JArr []) = (Inl AttributeError, {||}, [])
   \<and> slack_events demo_services {||} (JObj array_id_body) = (Inl TypeError, {||}, [])
   \<and> slack_events demo_services {||} (JObj string_event_body)
       = (Inl AttributeError, {|KStr ''E4''|}, [])
   \<and> slack_events demo_services {||} (JObj number_text_body)
       = (Inl TypeError, {|KStr ''E5''|}, [AuthTest])
   \<and> fst (slack_events posting_fails {||} (JObj bare_mention_body))
       = Inl (OtherError ''timed out'')"
  by (simp add: slack_events_def array_id_body_def string_event_body_def number_text_body_def
      bare_mention_body_def mention_event_def posting_fails_def demo_services_def
      py_get_def py_get_default_def dict_get_def handle_event_def mark_def Rep_bot_id
      send_slack_message_def extract_prompt_from_message_def re_special_def py_strip_def
      py_split_def fcard_finsert_if fcard_fempty)

text \<open>
  C8, amended. The response of the handler to every body that is a JSON value. A body
  that is no object ends with \<open>AttributeError\<close>. For an object: \<open>url_verification\<close> is
  answered with the challenge (\<open>null\<close> when there is none); a type other than
  \<open>url_verification\<close> and \<open>event_callback\<close> with \<open>{"status": "ok"}\<close>, the set untouched. An
  \<open>event_callback\<close> whose \<open>event_id\<close> is an array or an object ends with \<open>TypeError\<close>; one
  with a duplicate id is answered with \<open>{"status": "ok"}\<close>; with a new id, the id is
  marked, and then: an event that is no object ends with \<open>AttributeError\<close>; an object of
  another type than \<open>app_mention\<close> is answered with \<open>{"status": "ok"}\<close>; an \<open>app_mention\<close>
  whose text is no string ends with \<open>TypeError\<close>, after \<open>auth_test\<close>; one whose text is a
  string and whose prompt is not empty is answered with \<open>{"status": "ok"}\<close>, a thread being
  started; one whose prompt is empty is answered with \<open>{"status": "ok"}\<close> when the posting
  of the usage hint returns or raises a \<open>SlackApiError\<close> that is printed, and ends with
  the exception that leaves the posting otherwise.
\<close>

theorem webhook_responses:
  assumes "ch = py_get ev ''channel''"
    and "th = (if py_truthy (py_get ev ''thread_ts'') then py_get ev ''thread_ts''
               else py_get ev ''ts'')"
    and "uid = (case auth_test sv of Some u \<Rightarrow> Rep_user_id u | None \<Rightarrow> [])"
  shows "(\<not> is_object body \<longrightarrow> slack_events sv seen body = (Inl AttributeError, seen, []))
   \<and> (py_get data ''type'' = JStr ''url_verification'' \<longrightarrow>
      slack_events sv seen (JObj data)
        = (Inr (JObj [(''challenge'', py_get data ''challenge'')]), seen, []))
   \<and> (py_get data ''type'' \<noteq> JStr ''url_verification''
        \<and> py_get data ''type'' \<noteq> JStr ''event_callback'' \<longrightarrow>
      slack_events sv seen (JObj data) = (Inr ok, seen, []))
   \<and> (py_get data ''type'' = JStr ''event_callback''
        \<and> key_of (py_get data ''event_id'') = None \<longrightarrow>
      slack_events sv seen (JObj data) = (Inl TypeError, seen, []))
   \<and> (py_get data ''type'' = JStr ''event_callback''
        \<and> key_of (py_get data ''event_id'') = Some k \<and> k |\<in>| seen \<longrightarrow>
      slack_events sv seen (JObj data) = (Inr ok, seen, []))
   \<and> (py_get data ''type'' = JStr ''event_callback''
        \<and> key_of (py_get data ''event_id'') = Some k \<and> k |\<notin>| seen
        \<and> \<not> is_object (py_get_default data ''event'' (JObj [])) \<longrightarrow>
      slack_events sv seen (JObj data) = (Inl AttributeError, mark k seen, []))
   \<and> (py_get data ''type'' = JStr ''event_callback''
        \<and> key_of (py_get data ''event_id'') = Some k \<and> k |\<notin>| seen
        \<and> py_get_default data ''event'' (JObj []) = JObj ev
        \<and> py_get ev ''type'' \<noteq> JStr ''app_mention'' \<longrightarrow>
      slack_events sv seen (JObj data) = (Inr ok, mark k seen, []))
   \<and> (py_get data ''type'' = JStr ''event_callback''
        \<and> key_of (py_get data ''event_id'') = Some k \<and> k |\<notin>| seen
        \<and> py_get_default data ''event'' (JObj []) = JObj ev
        \<and> py_get ev ''type'' = JStr ''app_mention''
        \<and> \<not> is_string (py_get_default ev ''text'' (JStr [])) \<longrightarrow>
      slack_events sv seen (JObj data) = (Inl TypeError, mark k seen, [AuthTest]))
   \<and> (py_get data ''type'' = JStr ''event_callback''
        \<and> key_of (py_get data ''event_id'') = Some k \<and> k |\<notin>| seen
        \<and> py_get_default data ''event'' (JObj []) = JObj ev
        \<and> py_get ev ''type'' = JStr ''app_mention''
        \<and> py_get_default ev ''text'' (JStr []) = JStr t \<longrightarrow>
      (\<exists>p. extract_prompt_from_message t uid = Inr p
         \<and> slack_events sv seen (JObj data)
           = (if p = [] then
                (case chat_postMessage sv ch th UsageHint of
                   Done \<Rightarrow> Inr ok
                 | SlackApiError d (Inr err) \<Rightarrow> Inr ok
                 | SlackApiError d (Inl (Exn x)) \<Rightarrow> Inl (OtherError x)
                 | Raises (Exn x) \<Rightarrow> Inl (OtherError x))
              else Inr ok,
              mark k seen,
              if p = [] then [AuthTest, PostMessage ch th UsageHint]
              else [AuthTest, StartThread ch th p])))"
proof -
  have c1: "slack_events sv seen body = (Inl AttributeError, seen, [])" if "\<not> is_object body"
    using that by (cases body) (simp_all add: slack_events_def)
  have c6: "slack_events sv seen (JObj data) = (Inl AttributeError, mark k seen, [])"
    if "py_get data ''type'' = JStr ''event_callback''"
      and "key_of (py_get data ''event_id'') = Some k" and "k |\<notin>| seen"
      and "\<not> is_object (py_get_default data ''event'' (JObj []))"
    using slack_events_new [OF that(1-3)] handle_event_not_object [OF that(4)] by simp
  have c7: "slack_events sv seen (JObj data) = (Inr ok, mark k seen, [])"
    if "py_get data ''type'' = JStr ''event_callback''"
      and "key_of (py_get data ''event_id'') = Some k" and "k |\<notin>| seen"
      and "py_get_default data ''event'' (JObj []) = JObj ev"
      and "py_get ev ''type'' \<noteq> JStr ''app_mention''"
    using slack_events_new [OF that(1-3)] handle_event_other [OF that(5)] that(4) by simp
  have c8: "slack_events sv seen (JObj data) = (Inl TypeError, mark k seen, [AuthTest])"
    if "py_get data ''type'' = JStr ''event_callback''"
      and "key_of (py_get data ''event_id'') = Some k" and "k |\<notin>| seen"
      and "py_get_default data ''event'' (JObj []) = JObj ev"
      and "py_get ev ''type'' = JStr ''app_mention''"
      and "\<not> is_string (py_get_default ev ''text'' (JStr []))"
    using slack_events_new [OF that(1-3)] handle_event_text [OF that(5,6)] that(4) by simp
  have c9: "\<exists>p. extract_prompt_from_message t uid = Inr p
         \<and> slack_events sv seen (JObj data)
           = (if p = [] then
                (case chat_postMessage sv ch th UsageHint of
                   Done \<Rightarrow> Inr ok
                 | SlackApiError d (Inr err) \<Rightarrow> Inr ok
                 | SlackApiError d (Inl (Exn x)) \<Rightarrow> Inl (OtherError x)
                 | Raises (Exn x) \<Rightarrow> Inl (OtherError x))
              else Inr ok,
              mark k seen,
              if p = [] then [AuthTest, PostMessage ch th UsageHint]
              else [AuthTest, StartThread ch th p])"
    if "py_get data ''type'' = JStr ''event_callback''"
      and "key_of (py_get data ''event_id'') = Some k" and "k |\<notin>| seen"
      and "py_get_default data ''event'' (JObj []) = JObj ev"
      and "py_get ev ''type'' = JStr ''app_mention''"
      and "py_get_default ev ''text'' (JStr []) = JStr t"
  proof -
    obtain p where p: "extract_prompt_from_message t
        (case auth_test sv of Some u \<Rightarrow> Rep_user_id u | None \<Rightarrow> []) = Inr p"
      using extract_returns by blast
    have "slack_events sv seen (JObj data)
        = (fst (handle_event sv (JObj ev)), mark k seen, snd (handle_event sv (JObj ev)))"
      using slack_events_new [OF that(1-3)] that(4) by simp
    then show ?thesis
      using p assms(3) by (simp add: handle_event_mention [OF that(5,6) p assms(1,2)])
  qed
  have c2345: "(py_get data ''type'' = JStr ''url_verification'' \<longrightarrow>
      slack_events sv seen (JObj data)
        = (Inr (JObj [(''challenge'', py_get data ''challenge'')]), seen, []))
   \<and> (py_get data ''type'' \<noteq> JStr ''url_verification''
        \<and> py_get data ''type'' \<noteq> JStr ''event_callback'' \<longrightarrow>
      slack_events sv seen (JObj data) = (Inr ok, seen, []))
   \<and> (py_get data ''type'' = JStr ''event_callback''
        \<and> key_of (py_get data ''event_id'') = None \<longrightarrow>
      slack_events sv seen (JObj data) = (Inl TypeError, seen, []))
   \<and> (py_get data ''type'' = JStr ''event_callback''
        \<and> key_of (py_get data ''event_id'') = Some k \<and> k |\<in>| seen \<longrightarrow>
      slack_events sv seen (JObj data) = (Inr ok, seen, []))"
    by (simp add: slack_events_def)
  from c1 c6 c7 c8 c9 c2345 show ?thesis by blast
qed

theorem webhook_responses_witness:
  "slack_events demo_services {||} (JObj challenge_body)
     = (Inr (JObj [(''challenge'', JStr ''tok3n'')]), {||}, [])
   \<and> slack_events demo_services {||} (JObj other_body) = (Inr ok, {||}, [])
   \<and> slack_events demo_services {|KStr ''E1''|} (JObj replay_body)
       = (Inr ok, {|KStr ''E1''|}, [])
   \<and> slack_events demo_services {||} (JObj join_body) = (Inr ok, {|KStr ''E3''|}, [])
   \<and> slack_events demo_services {||} (JObj replay_body)
       = (Inr ok, {|KStr ''E1''|},
          [AuthTest, StartThread (JStr ''C1'') (JStr ''T1'') ''3 year old at the beach''])
   \<and> slack_events no_response_data {||} (JObj bare_mention_body)
       = (Inl (OtherError ''As the response.data is empty, this operation is unsupported''),
          {|KStr ''E2''|}, [AuthTest, PostMessage (JStr ''C1'') (JStr ''T0'') UsageHint])
   \<and> slack_events demo_services {||} (JNum 3) = (Inl AttributeError, {||}, [])
   \<and> slack_events demo_services {||} (JObj array_id_body) = (Inl TypeError, {||}, [])
   \<and> slack_events demo_services {||} (JObj number_text_body)
       = (Inl TypeError, {|KStr ''E5''|}, [AuthTest])"
proof -
  let ?ev = "[(''type'', JStr ''app_mention''),
     (''text'', JStr ''<@BOT> 3 year old at the beach''),
     (''channel'', JStr ''C1''), (''ts'', JStr ''T1'')]"
  let ?bv = "[(''type'', JStr ''app_mention''), (''text'', JStr ''<@BOT>''),
        (''channel'', JStr ''C1''), (''thread_ts'', JStr ''T0''), (''ts'', JStr ''T1'')]"
  let ?nv = "[(''type'', JStr ''app_mention''), (''text'', JNum 7),
        (''channel'', JStr ''C1''), (''ts'', JStr ''T1'')]"
  let ?jv = "[(''type'', JStr ''member_joined_channel'')]"
  have c: "py_get challenge_body ''type'' = JStr ''url_verification''"
    "py_get challenge_body ''challenge'' = JStr ''tok3n''"
    by (simp_all add: challenge_body_def py_get_def dict_get_def)
  have o: "py_get other_body ''type'' \<noteq> JStr ''url_verification''
        \<and> py_get other_body ''type'' \<noteq> JStr ''event_callback''"
    by (simp add: other_body_def py_get_def dict_get_def)
  have r: "py_get replay_body ''type'' = JStr ''event_callback''"
    "key_of (py_get replay_body ''event_id'') = Some (KStr ''E1'')"
    "py_get_default replay_body ''event'' (JObj []) = JObj ?ev"
    "py_get ?ev ''type'' = JStr ''app_mention''"
    "py_get_default ?ev ''text'' (JStr []) = JStr ''<@BOT> 3 year old at the beach''"
    "py_get ?ev ''channel'' = JStr ''C1''"
    "(if py_truthy (py_get ?ev ''thread_ts'') then py_get ?ev ''thread_ts''
      else py_get ?ev ''ts'') = JStr ''T1''"
    by (simp_all add: replay_body_def mention_event_def py_get_def py_get_default_def
        dict_get_def)
  have b: "py_get bare_mention_body ''type'' = JStr ''event_callback''"
    "key_of (py_get bare_mention_body ''event_id'') = Some (KStr ''E2'')"
    "py_get_default bare_mention_body ''event'' (JObj []) = JObj ?bv"
    "py_get ?bv ''type'' = JStr ''app_mention''"
    "py_get_default ?bv ''text'' (JStr []) = JStr ''<@BOT>''"
    "py_get ?bv ''channel'' = JStr ''C1''"
    "(if py_truthy (py_get ?bv ''thread_ts'') then py_get ?bv ''thread_ts''
      else py_get ?bv ''ts'') = JStr ''T0''"
    by (simp_all add: bare_mention_body_def py_get_def py_get_default_def dict_get_def)
  have n: "py_get number_text_body ''type'' = JStr ''event_callback''"
    "key_of (py_get number_text_body ''event_id'') = Some (KStr ''E5'')"
    "py_get_default number_text_body ''event'' (JObj []) = JObj ?nv"
    "py_get ?nv ''type'' = JStr ''app_mention''"
    "\<not> is_string (py_get_default ?nv ''text'' (JStr []))"
    by (simp_all add: number_text_body_def py_get_def py_get_default_def dict_get_def)
  have j: "py_get join_body ''type'' = JStr ''event_callback''"
    "key_of (py_get join_body ''event_id'') = Some (KStr ''E3'')"
    "py_get_default join_body ''event'' (JObj []) = JObj ?jv"
    "py_get ?jv ''type'' \<noteq> JStr ''app_mention''"
    by (simp_all add: join_body_def py_get_def py_get_default_def dict_get_def)
  have a: "py_get array_id_body ''type'' = JStr ''event_callback''"
    "key_of (py_get array_id_body ''event_id'') = None"
    by (simp_all add: array_id_body_def py_get_def dict_get_def)
  have d: "auth_test demo_services = Some bot_id" "auth_test no_response_data = Some bot_id"
    "chat_postMessage no_response_data (JStr ''C1'') (JStr ''T0'') UsageHint
       = SlackApiError ''The request to the Slack API failed.''
           (Inl (Exn ''As the response.data is empty, this operation is unsupported''))"
    by (simp_all add: no_response_data_def demo_services_def)
  have e: "extract_prompt_from_message ''<@BOT> 3 year old at the beach'' ''BOT''
       = Inr ''3 year old at the beach''"
    "extract_prompt_from_message ''<@BOT>'' ''BOT'' = Inr []"
    by (simp_all add: extract_prompt_from_message_def re_special_def py_strip_def py_split_def
        py_isspace_def)
  have m: "mark (KStr ''E1'') {||} = {|KStr ''E1''|}" "mark (KStr ''E2'') {||} = {|KStr ''E2''|}"
    "mark (KStr ''E3'') {||} = {|KStr ''E3''|}" "mark (KStr ''E5'') {||} = {|KStr ''E5''|}"
    by (simp_all add: mark_def fcard_finsert_if fcard_fempty)
  have w1: "slack_events demo_services {||} (JObj challenge_body)
     = (Inr (JObj [(''challenge'', JStr ''tok3n'')]), {||}, [])"
    using webhook_responses [OF refl refl refl, where data = challenge_body
        and sv = demo_services and seen = "{||}"] c
    by simp
  have w2: "slack_events demo_services {||} (JObj other_body) = (Inr ok, {||}, [])"
    using webhook_responses [OF refl refl refl, where data = other_body
        and sv = demo_services and seen = "{||}"] o
    by blast
  have w3: "slack_events demo_services {|KStr ''E1''|} (JObj replay_body)
       = (Inr ok, {|KStr ''E1''|}, [])"
    using webhook_responses [OF refl refl refl, where data = replay_body
        and sv = demo_services and seen = "{|KStr ''E1''|}" and k = "KStr ''E1''"] r(1,2)
    by simp
  have w4: "slack_events demo_services {||} (JObj join_body) = (Inr ok, {|KStr ''E3''|}, [])"
    using webhook_responses [OF refl refl refl, where data = join_body
        and sv = demo_services and seen = "{||}" and k = "KStr ''E3''" and ev = ?jv] j m
    by simp
  have w5: "slack_events demo_services {||} (JObj replay_body)
       = (Inr ok, {|KStr ''E1''|},
          [AuthTest, StartThread (JStr ''C1'') (JStr ''T1'') ''3 year old at the beach''])"
    using webhook_responses [OF refl refl refl, where data = replay_body
        and sv = demo_services and seen = "{||}" and k = "KStr ''E1''" and ev = ?ev
        and t = "''<@BOT> 3 year old at the beach''"] r m d(1) e(1)
    by (simp add: Rep_bot_id)
  have w6: "slack_events no_response_data {||} (JObj bare_mention_body)
       = (Inl (OtherError ''As the response.data is empty, this operation is unsupported''),
          {|KStr ''E2''|}, [AuthTest, PostMessage (JStr ''C1'') (JStr ''T0'') UsageHint])"
    using webhook_responses [OF refl refl refl, where data = bare_mention_body
        and sv = no_response_data and seen = "{||}" and k = "KStr ''E2''" and ev = ?bv
        and t = "''<@BOT>''"] b m d(2,3) e(2)
    by (simp add: Rep_bot_id)
  have w7: "slack_events demo_services {||} (JNum 3) = (Inl AttributeError, {||}, [])"
    using webhook_responses [OF refl refl refl, where body = "JNum 3"
        and sv = demo_services and seen = "{||}"]
    by simp
  have w8: "slack_events demo_services {||} (JObj array_id_body) = (Inl TypeError, {||}, [])"
    using webhook_responses [OF refl refl refl, where data = array_id_body
        and sv = demo_services and seen = "{||}"] a
    by simp
  have w9: "slack_events demo_services {||} (JObj number_text_body)
       = (Inl TypeError, {|KStr ''E5''|}, [AuthTest])"
    using webhook_responses [OF refl refl refl, where data = number_text_body
        and sv = demo_services and seen = "{||}" and k = "KStr ''E5''" and ev = ?nv] n m
    by simp
  from w1 w2 w3 w4 w5 w6 w7 w8 w9 show ?thesis by blast
qed

section \<open>Properties of the deduplication set\<close>

lemma fold_mark_below_cap:
  "distinct ids \<Longrightarrow> length ids \<le> 1000 \<Longrightarrow> fold mark ids {||} = fset_of_list ids"
proof (induction ids rule: rev_induct)
  case Nil
  then show ?case by simp
next
  case (snoc k ids)
  then have "fold mark ids {||} = fset_of_list ids" by simp
  then have "fold mark (ids @ [k]) {||} = mark k (fset_of_list ids)" by simp
  moreover have "fcard (fset_of_list ids) = length ids"
    using snoc.prems(1) by (simp add: fcard.rep_eq fset_of_list.rep_eq distinct_card)
  then have "mark k (fset_of_list ids) = fset_of_list (ids @ [k])"
    using snoc.prems by (auto simp: mark_def Let_def fcard_finsert_if fset_of_list_elem)
  ultimately show ?case by simp
qed

lemma fold_mark_at_cap:
  assumes "distinct ids" and "length ids = 1001"
  shows "fold mark ids {||} = {||}"
proof -
  obtain ks k where ids: "ids = ks @ [k]"
    using assms(2) by (cases ids rule: rev_cases) auto
  with assms have d: "distinct ks" "k \<notin> set ks" "length ks = 1000" by auto
  then have "fold mark ks {||} = fset_of_list ks"
    by (simp add: fold_mark_below_cap)
  then have "fold mark ids {||} = mark k (fset_of_list ks)"
    by (simp add: ids)
  moreover have "fcard (fset_of_list ks) = 1000"
    using d by (simp add: fcard.rep_eq fset_of_list.rep_eq distinct_card)
  then have "mark k (fset_of_list ks) = {||}"
    using d by (simp add: mark_def Let_def fcard_finsert_if fset_of_list_elem)
  ultimately show ?thesis by simp
qed

lemma mark_bound: "fcard seen \<le> 1000 \<Longrightarrow> fcard (mark k seen) \<le> 1000"
  by (simp add: mark_def Let_def fcard_fempty)

lemma fold_mark_bound: "fcard seen \<le> 1000 \<Longrightarrow> fcard (fold mark ids seen) \<le> 1000"
  by (induction ids arbitrary: seen) (simp_all add: mark_bound)

lemma ids1001_distinct: "distinct ids1001 \<and> length ids1001 = 1001"
  by (simp add: ids1001_def distinct_map inj_on_def)

text \<open>
  C3, the claim as stated fails: after 1001 distinct ids have been inserted into the
  empty set, the set is already empty (its size is 0), and the next insert leaves one
  entry, not none.
\<close>

theorem cap_reset_next_insert_counterexample:
  "fcard (fold mark ids1001 {||}) = 0
   \<and> fcard (mark (KStr ''E1'') (fold mark ids1001 {||})) = 1"
  using ids1001_distinct
  by (simp add: fold_mark_at_cap mark_def fcard_finsert_if fcard_fempty)

text \<open>
  C3, amended. Inserting 1001 distinct ids into the empty set: up to the 1000th insert
  the set holds exactly the ids inserted; the 1001st insert itself empties the set, so
  that all 1001 ids, the last one too, are unseen afterwards; the next insert leaves
  exactly the id inserted. Whatever is inserted, the set holds at most 1000 entries
  after an insert and its clean-up, and at most 1001 in between.
\<close>

theorem cap_reset:
  assumes "distinct ids" and "length ids = 1001"
  shows "fold mark ids {||} = {||}
       \<and> (\<forall>n < 1001. fold mark (take n ids) {||} = fset_of_list (take n ids))
       \<and> (\<forall>k. k |\<notin>| fold mark ids {||})
       \<and> (\<forall>k. mark k (fold mark ids {||}) = {|k|})
       \<and> (\<forall>ks k. fcard (fold mark ks {||}) \<le> 1000
                  \<and> fcard (finsert k (fold mark ks {||})) \<le> 1001)"
proof -
  have e: "fold mark ids {||} = {||}"
    using assms by (rule fold_mark_at_cap)
  have p: "fold mark (take n ids) {||} = fset_of_list (take n ids)" if "n < 1001" for n
    using assms that by (intro fold_mark_below_cap) simp_all
  have b: "fcard (fold mark ks {||}) \<le> 1000" for ks
    by (rule fold_mark_bound) (simp add: fcard_fempty)
  have "fcard (finsert k (fold mark ks {||})) \<le> 1001" for ks k
    using b [of ks] by (simp add: fcard_finsert_if)
  with e p b show ?thesis
    by (simp add: mark_def fcard_finsert_if fcard_fempty)
qed

theorem cap_reset_witness:
  "distinct ids1001 \<and> length ids1001 = 1001
   \<and> fold mark ids1001 {||} = {||}
   \<and> KInt 1000 |\<notin>| fold mark ids1001 {||}
   \<and> fold mark (take 1000 ids1001) {||} = fset_of_list (take 1000 ids1001)
   \<and> mark (KStr ''E1'') (fold mark ids1001 {||}) = {|KStr ''E1''|}"
proof -
  have d: "distinct ids1001" and l: "length ids1001 = 1001"
    using ids1001_distinct by simp_all
  have "(1000::nat) < 1001" by simp
  with cap_reset [OF d l] d l show ?thesis by blast
qed


section \<open>Properties of the dispatched unit\<close>

lemma try_body_raises:
  "(fst (try_body sv c t p) = Some e) = stage_fails sv c t p e"
proof (cases "chat_postMessage sv c t Working")
  case Done
  then show ?thesis
    by (simp add: stage_fails_def try_body_def send_slack_message_def generate_image_def
        download_image_def upload_image_to_slack_def Let_def
        split: sum.split call_outcome.split)
next
  case (SlackApiError d r)
  then show ?thesis
    by (cases r)
      (simp_all add: stage_fails_def try_body_def send_slack_message_def generate_image_def
        download_image_def upload_image_to_slack_def Let_def
        split: sum.split call_outcome.split)
next
  case (Raises x)
  then show ?thesis
    by (simp add: stage_fails_def try_body_def send_slack_message_def)
qed

lemma try_body_fails:
  "stage_fails sv c t p e \<Longrightarrow> fst (try_body sv c t p) = Some e"
  by (simp add: try_body_raises)

lemma try_body_succeeds:
  assumes "\<forall>e. \<not> stage_fails sv c t p e"
  shows "fst (try_body sv c t p) = None"
proof (cases "fst (try_body sv c t p)")
  case None
  then show ?thesis .
next
  case (Some e)
  with assms show ?thesis by (simp add: try_body_raises)
qed

lemma try_body_no_failed_post: "filter is_failed_post (snd (try_body sv c t p)) = []"
  by (simp add: try_body_def send_slack_message_def generate_image_def
      download_image_def upload_image_to_slack_def Let_def
      split: call_outcome.split sum.split option.split prod.split)

text \<open>
  C7, the claim as stated fails: when the download raises and the posting of the error
  message raises in its turn an exception that is not \<open>SlackApiError\<close> (here a timeout),
  no error message is posted and that exception leaves the unit.
\<close>

theorem error_report_raises_counterexample:
  "stage_fails report_fails (JStr ''C1'') (JStr ''T1'') ''3 year old at the beach''
     (Exn ''404 Client Error'')
   \<and> chat_postMessage report_fails (JStr ''C1'') (JStr ''T1'') (Failed ''404 Client Error'')
       = Raises (Exn ''timed out'')
   \<and> fst (process_image_request report_fails (JStr ''C1'') (JStr ''T1'')
        ''3 year old at the beach'') = Some (Exn ''timed out'')"
  by (simp add: stage_fails_def process_image_request_def try_body_def
      send_slack_message_def generate_image_def download_image_def normalise_def
      report_fails_def demo_services_def)

text \<open>
  C7, amended. When a stage of the unit (acknowledgment, generation, download, upload)
  raises an exception described by \<open>d\<close>, the unit catches it and calls
  \<open>chat_postMessage\<close> once with the error message that contains \<open>d\<close>, for the channel and
  thread it was given, as its last call; it makes no other call with an error message.
  The exception of the stage does not leave the unit: nothing leaves it when that last
  call returns or raises a \<open>SlackApiError\<close> that is printed, and otherwise the exception
  that the call, or the printing, raises. When no stage raises, no error message is
  posted and nothing leaves the unit.
\<close>

theorem unit_reports_failure:
  "(stage_fails sv channel thread_ts user_prompt (Exn d) \<longrightarrow>
      filter is_failed_post (snd (process_image_request sv channel thread_ts user_prompt))
        = [PostMessage channel thread_ts (Failed d)]
      \<and> last (snd (process_image_request sv channel thread_ts user_prompt))
        = PostMessage channel thread_ts (Failed d)
      \<and> fst (process_image_request sv channel thread_ts user_prompt)
        = (case chat_postMessage sv channel thread_ts (Failed d) of
             Done \<Rightarrow> None
           | SlackApiError x (Inr err) \<Rightarrow> None
           | SlackApiError x (Inl e) \<Rightarrow> Some e
           | Raises e \<Rightarrow> Some e))
   \<and> ((\<forall>e. \<not> stage_fails sv channel thread_ts user_prompt e) \<longrightarrow>
      filter is_failed_post (snd (process_image_request sv channel thread_ts user_prompt)) = []
      \<and> fst (process_image_request sv channel thread_ts user_prompt) = None)"
proof -
  obtain r acts where t: "try_body sv channel thread_ts user_prompt = (r, acts)"
    by (cases "try_body sv channel thread_ts user_prompt")
  have n: "filter is_failed_post acts = []"
    using try_body_no_failed_post [of sv channel thread_ts user_prompt] t by simp
  have f: "r = Some (Exn d)" if "stage_fails sv channel thread_ts user_prompt (Exn d)"
    using try_body_fails [OF that] t by simp
  have s: "r = None" if "\<forall>e. \<not> stage_fails sv channel thread_ts user_prompt e"
    using try_body_succeeds [OF that] t by simp
  have p: "process_image_request sv channel thread_ts user_prompt
      = (case chat_postMessage sv channel thread_ts (Failed d) of
             Done \<Rightarrow> None
           | SlackApiError x (Inr err) \<Rightarrow> None
           | SlackApiError x (Inl e) \<Rightarrow> Some e
           | Raises e \<Rightarrow> Some e,
         acts @ [PostMessage channel thread_ts (Failed d)])"
    if "r = Some (Exn d)"
    using that by (simp add: process_image_request_def t send_slack_message_def)
  have q: "process_image_request sv channel thread_ts user_prompt = (None, acts)"
    if "r = None"
    using that by (simp add: process_image_request_def t)
  show ?thesis
    using f s by (auto simp: p q n)
qed

theorem unit_reports_failure_witness:
  "stage_fails download_fails (JStr ''C1'') (JStr ''T1'') ''3 year old at the beach''
     (Exn ''404 Client Error'')
   \<and> process_image_request download_fails (JStr ''C1'') (JStr ''T1'') ''3 year old at the beach''
       = (None,
          [PostMessage (JStr ''C1'') (JStr ''T1'') Working,
           Generate (enhance_prompt ''VISHYFACE'' ''3 year old at the beach'') None,
           Download ''https://r.example/out.webp'',
           PostMessage (JStr ''C1'') (JStr ''T1'') (Failed ''404 Client Error'')])
   \<and> process_image_request demo_services (JStr ''C1'') (JStr ''T1'') ''3 year old at the beach''
       = (None,
          [PostMessage (JStr ''C1'') (JStr ''T1'') Working,
           Generate (enhance_prompt ''VISHYFACE'' ''3 year old at the beach'') None,
           Download ''https://r.example/out.webp'',
           Upload (JStr ''C1'') (JStr ''T1'') ''RIFF'' ''3 year old at the beach''])"
proof -
  let ?p = "''3 year old at the beach''"
  have s: "stage_fails download_fails (JStr ''C1'') (JStr ''T1'') ?p (Exn ''404 Client Error'')"
    by (simp add: stage_fails_def download_fails_def demo_services_def normalise_def)
  have o: "\<forall>e. \<not> stage_fails demo_services (JStr ''C1'') (JStr ''T1'') ?p e"
    by (simp add: stage_fails_def demo_services_def normalise_def)
  have c: "chat_postMessage download_fails (JStr ''C1'') (JStr ''T1'') (Failed ''404 Client Error'')
       = Done"
    by (simp add: download_fails_def demo_services_def)
  have a: "snd (process_image_request download_fails (JStr ''C1'') (JStr ''T1'') ?p)
       = [PostMessage (JStr ''C1'') (JStr ''T1'') Working,
           Generate (enhance_prompt ''VISHYFACE'' ?p) None,
           Download ''https://r.example/out.webp'',
           PostMessage (JStr ''C1'') (JStr ''T1'') (Failed ''404 Client Error'')]"
    by (simp add: process_image_request_def try_body_def send_slack_message_def
        generate_image_def download_image_def normalise_def download_fails_def
        demo_services_def)
  have b: "snd (process_image_request demo_services (JStr ''C1'') (JStr ''T1'') ?p)
       = [PostMessage (JStr ''C1'') (JStr ''T1'') Working,
           Generate (enhance_prompt ''VISHYFACE'' ?p) None,
           Download ''https://r.example/out.webp'',
           Upload (JStr ''C1'') (JStr ''T1'') ''RIFF'' ?p]"
    by (simp add: process_image_request_def try_body_def send_slack_message_def
        generate_image_def download_image_def upload_image_to_slack_def normalise_def
        demo_services_def)
  have "fst (process_image_request download_fails (JStr ''C1'') (JStr ''T1'') ?p) = None"
    using unit_reports_failure [of download_fails "JStr ''C1''" "JStr ''T1''" ?p
        "''404 Client Error''"] s c
    by simp
  moreover have "fst (process_image_request demo_services (JStr ''C1'') (JStr ''T1'') ?p) = None"
    using unit_reports_failure [of demo_services "JStr ''C1''" "JStr ''T1''" ?p] o
    by blast
  ultimately show ?thesis
    using s a b by (simp add: prod_eq_iff)
qed

section \<open>Properties of the normalisation\<close>

text \<open>
  C1, the claim as stated fails: for a list whose first element neither has a \<open>url\<close>
  nor is a string (here \<open>None\<close>), the code returns \<open>str\<close> of that element and raises
  nothing.
\<close>

theorem normalise_stringifies_counterexample:
  "normalise str_none (OList [ONone]) = Inr ''None''"
  by (simp add: normalise_def str_none_def)

text \<open>
  C1, amended. For every response exactly one of these holds. A non-empty list is
  judged by its first element alone: its \<open>url\<close> if it has one, the element if it is a
  string, and \<open>str\<close> of the element otherwise. A single object with a \<open>url\<close> gives the
  \<open>url\<close>, a single string itself. Everything else (the empty list, \<open>None\<close>, a number, a
  mapping) raises the exception \<open>Unexpected output format\<close>.
\<close>

theorem normalise_shapes:
  "(\<exists>u rest. out = OList (OUrl u # rest) \<and> normalise f out = Inr u)
   \<or> (\<exists>s rest. out = OList (OStr s # rest) \<and> normalise f out = Inr s)
   \<or> (\<exists>u. out = OUrl u \<and> normalise f out = Inr u)
   \<or> (\<exists>s. out = OStr s \<and> normalise f out = Inr s)
   \<or> (\<exists>x rest. out = OList (x # rest) \<and> \<not> has_url x \<and> \<not> is_str x
         \<and> normalise f out = Inr (f x))
   \<or> ((out = OList [] \<or> out = ONone \<or> (\<exists>n. out = OInt n) \<or> (\<exists>kvs. out = ODict kvs))
         \<and> normalise f out = Inl (Exn (''Unexpected output format: '' @ f out)))"
proof (cases out)
  case (OList xs)
  show ?thesis
  proof (cases xs)
    case Nil
    with OList show ?thesis by (simp add: normalise_def)
  next
    case (Cons x rest)
    with OList show ?thesis by (cases x) (simp_all add: normalise_def)
  qed
qed (simp_all add: normalise_def)

theorem normalise_shapes_witness:
  "normalise str_none (OList [OUrl ''https://r.example/out.webp'']) = Inr ''https://r.example/out.webp''
   \<and> normalise str_none (OList [OStr ''a'', OStr ''b'']) = Inr ''a''
   \<and> normalise str_none (ODict []) = Inl (Exn ''Unexpected output format: None'')
   \<and> normalise str_none (OList [ONone, OStr ''b'']) = Inr ''None''"
  using normalise_shapes [of "OList [OUrl ''https://r.example/out.webp'']" str_none]
    normalise_shapes [of "OList [OStr ''a'', OStr ''b'']" str_none]
    normalise_shapes [of "ODict []" str_none]
    normalise_shapes [of "OList [ONone, OStr ''b'']" str_none]
  by (simp add: str_none_def)


end
